theory Spec2Isabelle
  imports Complex_Main
begin

section \<open>The numeric operations the script calls\<close>

text \<open>
  The script \<^verbatim>\<open>calabi_yau.py\<close> computes with numpy's float64 and complex128
  arrays. Here a float64 is read as a real number and a complex128 as a complex
  number: the arithmetic is exact, rounding is not part of the model. A one-dimensional
  array is a list, a two-dimensional array is a list of rows.
\<close>

type_synonym 'a grid = "'a list list"

text \<open>\<^verbatim>\<open>np.radians(d)\<close>: degrees to radians.\<close>

definition radians :: "real \<Rightarrow> real" where
  "radians d = d * pi / 180"

text \<open>
  \<^verbatim>\<open>np.linspace(start, stop, num)\<close> with the default \<^verbatim>\<open>endpoint=True\<close>:
  \<^verbatim>\<open>
  div = num - 1
  y = arange(0, num)
  delta = stop - start
  if div > 0: y = y * (delta / div)
  else:       y = y * delta
  y += start
  if num > 1: y[-1] = stop
  \<close>
\<close>

definition linspace :: "real \<Rightarrow> real \<Rightarrow> nat \<Rightarrow> real list" where
  "linspace start stop num =
     (let dv = num - 1;
          delta = stop - start;
          y = (if dv > 0 then map (\<lambda>i. real i * (delta / real dv) + start) [0..<num]
               else map (\<lambda>i. real i * delta + start) [0..<num])
      in if num > 1 then y[num - 1 := stop] else y)"

text \<open>
  \<^verbatim>\<open>np.meshgrid(x, y)\<close> with the default \<^verbatim>\<open>indexing='xy'\<close>: both results
  have \<open>length y\<close> rows and \<open>length x\<close> columns; every row of the first is \<open>x\<close>,
  row \<open>r\<close> of the second is constantly \<open>y ! r\<close>.
\<close>

definition meshgrid :: "'a list \<Rightarrow> 'a list \<Rightarrow> 'a grid \<times> 'a grid" where
  "meshgrid x y = (replicate (length y) x, map (\<lambda>t. replicate (length x) t) y)"

text \<open>Elementwise operations on two-dimensional arrays of one shape.\<close>

definition gmap :: "('a \<Rightarrow> 'b) \<Rightarrow> 'a grid \<Rightarrow> 'b grid" where
  "gmap f g = map (map f) g"

definition gmap2 :: "('a \<Rightarrow> 'b \<Rightarrow> 'c) \<Rightarrow> 'a grid \<Rightarrow> 'b grid \<Rightarrow> 'c grid" where
  "gmap2 f g h = map2 (map2 f) g h"

text \<open>\<^verbatim>\<open>a[:, i]\<close>, column \<open>i\<close> of a two-dimensional array; \<^verbatim>\<open>a[i, :]\<close> is \<open>a ! i\<close>.\<close>

definition column :: "nat \<Rightarrow> 'a grid \<Rightarrow> 'a list" where
  "column i g = map (\<lambda>row. row ! i) g"

text \<open>\<^verbatim>\<open>a.flatten()\<close>, row-major.\<close>

definition flatten :: "'a grid \<Rightarrow> 'a list" where
  "flatten g = concat g"

text \<open>
  The complex power \<^verbatim>\<open>z ** b\<close> of a complex128 array and a float exponent is
  \<open>exp (b * log z)\<close> with the principal logarithm, whose imaginary part is the
  argument of \<open>z\<close> in \<open>(-\<pi>, \<pi>]\<close>. For \<open>z = 0\<close> numpy returns \<open>0\<close> when the exponent is
  a positive real; the script's only exponent is \<open>2 / 5\<close>.
\<close>

definition clog :: "complex \<Rightarrow> complex" where
  "clog z = Complex (ln (cmod z)) (Arg z)"

definition cpow :: "complex \<Rightarrow> real \<Rightarrow> complex" where
  "cpow z b = (if z = 0 then 0 else exp (complex_of_real b * clog z))"

section \<open>The parameter grid\<close>

text \<open>
  Lines 46 to 53 and 64 of \<^verbatim>\<open>plot_calabi_yau\<close>:
  \<^verbatim>\<open>
  n = 5
  xi_steps = 25
  theta_steps = 25
  xi = np.linspace(-1.0, 1.0, xi_steps)
  theta = np.linspace(0, np.pi / 2, theta_steps)
  Xi, Theta = np.meshgrid(xi, theta)
  ...
  w = Xi + 1j * Theta
  \<close>
\<close>

text \<open>The constant \<^verbatim>\<open>n\<close> of the script is \<open>n_val\<close>, its grid \<^verbatim>\<open>w\<close> is \<open>w_grid\<close>.\<close>

definition n_val :: nat where
  "n_val = 5"

definition xi_steps :: nat where
  "xi_steps = 25"

definition theta_steps :: nat where
  "theta_steps = 25"

definition xi :: "real list" where
  "xi = linspace (- 1) 1 xi_steps"

definition theta :: "real list" where
  "theta = linspace 0 (pi / 2) theta_steps"

definition Xi :: "real grid" where
  "Xi = fst (meshgrid xi theta)"

definition Theta :: "real grid" where
  "Theta = snd (meshgrid xi theta)"

definition w_grid :: "complex grid" where
  "w_grid = gmap2 (\<lambda>x t. complex_of_real x + \<i> * complex_of_real t) Xi Theta"

section \<open>The sheets\<close>

text \<open>
  Lines 59 to 83, the body of the two loops over \<^verbatim>\<open>k1\<close> and \<^verbatim>\<open>k2\<close>:
  \<^verbatim>\<open>
  phase1 = np.exp(2j * np.pi * k1 / n)
  phase2 = np.exp(2j * np.pi * k2 / n)
  w = Xi + 1j * Theta
  z1 = phase1 * (np.cosh(w)) ** (2 / n)
  z2 = phase2 * (np.sinh(w)) ** (2 / n)
  X = z1.real
  Y = z2.real
  Z = np.cos(alpha) * z1.imag + np.sin(alpha) * z2.imag
  all_x.append(X); all_y.append(Y); all_z.append(Z)
  for i in range(len(xi)):    ax.plot(X[:, i], Y[:, i], Z[:, i], ...)
  for i in range(len(theta)): ax.plot(X[i, :], Y[i, :], Z[i, :], ...)
  \<close>
  \<open>phase k\<close> is \<^verbatim>\<open>phase1\<close> for \<open>k = k1\<close> and \<^verbatim>\<open>phase2\<close> for \<open>k = k2\<close>.
\<close>

definition phase :: "nat \<Rightarrow> complex" where
  "phase k = exp (Complex 0 2 * complex_of_real pi * of_nat k / of_nat n_val)"

definition z1_grid :: "nat \<Rightarrow> complex grid" where
  "z1_grid k1 = gmap (\<lambda>v. phase k1 * cpow (cosh v) (2 / real n_val)) w_grid"

definition z2_grid :: "nat \<Rightarrow> complex grid" where
  "z2_grid k2 = gmap (\<lambda>v. phase k2 * cpow (sinh v) (2 / real n_val)) w_grid"

definition X_grid :: "nat \<Rightarrow> real grid" where
  "X_grid k1 = gmap Re (z1_grid k1)"

definition Y_grid :: "nat \<Rightarrow> real grid" where
  "Y_grid k2 = gmap Re (z2_grid k2)"

definition Z_grid :: "real \<Rightarrow> nat \<Rightarrow> nat \<Rightarrow> real grid" where
  "Z_grid alpha k1 k2 =
     gmap2 (\<lambda>a b. a + b)
       (gmap (\<lambda>v. cos alpha * v) (gmap Im (z1_grid k1)))
       (gmap (\<lambda>v. sin alpha * v) (gmap Im (z2_grid k2)))"

text \<open>
  One call of \<^verbatim>\<open>ax.plot\<close> draws one polyline; its style (white, opacity 0.15,
  width 0.6) is the same in every call and is left out.
\<close>

record line3d =
  line_x :: "real list"
  line_y :: "real list"
  line_z :: "real list"

text \<open>The variables the loops update: the three lists of arrays and the lines drawn so far.\<close>

record mesh =
  all_x :: "real grid list"
  all_y :: "real grid list"
  all_z :: "real grid list"
  plotted :: "line3d list"

text \<open>The two inner loops of a sheet: one line per column, then one line per row.\<close>

definition wireframe :: "real grid \<Rightarrow> real grid \<Rightarrow> real grid \<Rightarrow> line3d list" where
  "wireframe X Y Z =
     map (\<lambda>i. \<lparr>line_x = column i X, line_y = column i Y, line_z = column i Z\<rparr>)
       [0..<length xi]
     @ map (\<lambda>i. \<lparr>line_x = X ! i, line_y = Y ! i, line_z = Z ! i\<rparr>)
       [0..<length theta]"

definition sheet_body :: "real \<Rightarrow> nat \<Rightarrow> nat \<Rightarrow> mesh \<Rightarrow> mesh" where
  "sheet_body alpha k1 k2 s =
     (let X = X_grid k1; Y = Y_grid k2; Z = Z_grid alpha k1 k2
      in s\<lparr>all_x := all_x s @ [X],
           all_y := all_y s @ [Y],
           all_z := all_z s @ [Z],
           plotted := plotted s @ wireframe X Y Z\<rparr>)"

text \<open>
  The mesh of a call \<^verbatim>\<open>plot_calabi_yau(elev, azim, alpha_deg)\<close>: the state after
  both loops, started from three empty lists and an empty drawing.
\<close>

definition mesh_arrays :: "real \<Rightarrow> real \<Rightarrow> real \<Rightarrow> mesh" where
  "mesh_arrays elev azim alpha_deg =
     (let alpha = radians alpha_deg
      in fold (\<lambda>k1. fold (\<lambda>k2. sheet_body alpha k1 k2) [0..<n_val]) [0..<n_val]
           \<lparr>all_x = [], all_y = [], all_z = [], plotted = []\<rparr>)"

section \<open>The bounding cube\<close>

datatype py_error = ValueError | FileNotFoundError

definition bind_err :: "'e + 'a \<Rightarrow> ('a \<Rightarrow> 'e + 'b) \<Rightarrow> 'e + 'b" where
  "bind_err m f = (case m of Inl e \<Rightarrow> Inl e | Inr v \<Rightarrow> f v)"

text \<open>\<^verbatim>\<open>a.max()\<close> and \<^verbatim>\<open>a.min()\<close> raise \<^verbatim>\<open>ValueError\<close> on an empty array.\<close>

definition amax :: "real list \<Rightarrow> py_error + real" where
  "amax v = (case v of [] \<Rightarrow> Inl ValueError | x # r \<Rightarrow> Inr (fold max r x))"

definition amin :: "real list \<Rightarrow> py_error + real" where
  "amin v = (case v of [] \<Rightarrow> Inl ValueError | x # r \<Rightarrow> Inr (fold min r x))"

record limits =
  xlim :: "real \<times> real"
  ylim :: "real \<times> real"
  zlim :: "real \<times> real"

text \<open>
  Lines 89 to 106:
  \<^verbatim>\<open>
  max_range = np.array([full_x.max() - full_x.min(),
                        full_y.max() - full_y.min(),
                        full_z.max() - full_z.min()]).max() / 2.0
  mid_x = (full_x.max() + full_x.min()) * 0.5
  mid_y = (full_y.max() + full_y.min()) * 0.5
  mid_z = (full_z.max() + full_z.min()) * 0.5
  ax.set_xlim(mid_x - max_range, mid_x + max_range)
  ax.set_ylim(mid_y - max_range, mid_y + max_range)
  ax.set_zlim(mid_z - max_range, mid_z + max_range)
  \<close>
\<close>

definition bounding_cube :: "real list \<Rightarrow> real list \<Rightarrow> real list \<Rightarrow> py_error + limits" where
  "bounding_cube full_x full_y full_z =
     bind_err (amax full_x) (\<lambda>x_max.
     bind_err (amin full_x) (\<lambda>x_min.
     bind_err (amax full_y) (\<lambda>y_max.
     bind_err (amin full_y) (\<lambda>y_min.
     bind_err (amax full_z) (\<lambda>z_max.
     bind_err (amin full_z) (\<lambda>z_min.
       let max_range = fold max [y_max - y_min, z_max - z_min] (x_max - x_min) / 2;
           mid_x = (x_max + x_min) * (1 / 2);
           mid_y = (y_max + y_min) * (1 / 2);
           mid_z = (z_max + z_min) * (1 / 2)
       in Inr \<lparr>xlim = (mid_x - max_range, mid_x + max_range),
               ylim = (mid_y - max_range, mid_y + max_range),
               zlim = (mid_z - max_range, mid_z + max_range)\<rparr>))))))"

section \<open>The figure\<close>

text \<open>
  The two annotations of the figure: the fixed equation text, and the parameter text
  that shows \<^verbatim>\<open>alpha_deg\<close>, \<^verbatim>\<open>azim\<close> and \<^verbatim>\<open>elev\<close> (its number formatting is
  left out).
\<close>

datatype fig_text = Equation_text | Param_text real real real

record figure =
  texts :: "fig_text list"
  axis_on :: bool
  fig_lines :: "line3d list"
  fig_limits :: limits
  view_elev :: real
  view_azim :: real

text \<open>
  Lines 9 to 109: the figure that \<^verbatim>\<open>plt.savefig\<close> is given. Lines 85 to 87 pool
  the coordinates of all sheets:
  \<^verbatim>\<open>full_x = np.concatenate([x.flatten() for x in all_x])\<close>.
  What is the same in every call is left out: the style sheet, the figure size, the
  place and colour of the two texts, the box aspect \<open>(1, 1, 1)\<close>, and \<^verbatim>\<open>plt.close()\<close>.
\<close>

definition draw :: "real \<Rightarrow> real \<Rightarrow> real \<Rightarrow> py_error + figure" where
  "draw elev azim alpha_deg =
     (let m = mesh_arrays elev azim alpha_deg;
          full_x = concat (map flatten (all_x m));
          full_y = concat (map flatten (all_y m));
          full_z = concat (map flatten (all_z m))
      in bind_err (bounding_cube full_x full_y full_z) (\<lambda>cube.
           Inr \<lparr>texts = [Equation_text, Param_text alpha_deg azim elev],
                axis_on = False,
                fig_lines = plotted m,
                fig_limits = cube,
                view_elev = elev,
                view_azim = azim\<rparr>))"

section \<open>The output file\<close>











section \<open>The generation routine and the command line\<close>






section \<open>Properties of the parameter grid\<close>

lemma length_linspace: "length (linspace a b m) = m"
  by (simp add: linspace_def Let_def)

lemma linspace_nth:
  assumes "1 < m" and "i < m"
  shows "linspace a b m ! i = a + real i * ((b - a) / real (m - 1))"
proof (cases "i = m - 1")
  case True
  have "a + real (m - 1) * ((b - a) / real (m - 1)) = b"
    using assms(1) by simp
  with True assms show ?thesis
    by (simp add: linspace_def Let_def)
next
  case False
  with assms show ?thesis
    by (simp add: linspace_def Let_def)
qed

lemma linspace_eq_map:
  assumes "1 < m"
  shows "linspace a b m = map (\<lambda>i. a + real i * ((b - a) / real (m - 1))) [0..<m]"
proof (rule nth_equalityI)
  show "length (linspace a b m) =
        length (map (\<lambda>i. a + real i * ((b - a) / real (m - 1))) [0..<m])"
    by (simp add: length_linspace)
next
  fix i
  assume "i < length (linspace a b m)"
  then have i: "i < m"
    by (simp add: length_linspace)
  have "linspace a b m ! i = a + real i * ((b - a) / real (m - 1))"
    by (rule linspace_nth [OF assms i])
  also have "\<dots> = map (\<lambda>i. a + real i * ((b - a) / real (m - 1))) [0..<m] ! i"
    using i by simp
  finally show "linspace a b m ! i =
                map (\<lambda>i. a + real i * ((b - a) / real (m - 1))) [0..<m] ! i" .
qed

lemma length_xi: "length xi = 25"
  by (simp add: xi_def xi_steps_def length_linspace)

lemma length_theta: "length theta = 25"
  by (simp add: theta_def theta_steps_def length_linspace)

lemma xi_nth: "i < 25 \<Longrightarrow> xi ! i = - 1 + real i / 12"
  by (simp add: xi_def xi_steps_def linspace_nth)

lemma theta_nth: "i < 25 \<Longrightarrow> theta ! i = real i * (pi / 48)"
  by (simp add: theta_def theta_steps_def linspace_nth)

lemma length_w: "length w_grid = 25"
  by (simp add: w_grid_def gmap2_def Xi_def Theta_def meshgrid_def length_xi length_theta)

lemma w_row:
  assumes "r < 25"
  shows "w_grid ! r = map (\<lambda>x. Complex x (theta ! r)) xi"
proof -
  have "w_grid ! r = map2 (\<lambda>x t. complex_of_real x + \<i> * complex_of_real t)
                  xi (replicate (length xi) (theta ! r))"
    using assms
    by (simp add: w_grid_def gmap2_def Xi_def Theta_def meshgrid_def length_xi length_theta)
  also have "\<dots> = map (\<lambda>x. Complex x (theta ! r)) xi"
    by (rule nth_equalityI) (simp_all add: complex_eq_iff)
  finally show ?thesis .
qed

lemma w_nth:
  assumes "r < 25" and "c < 25"
  shows "w_grid ! r ! c = Complex (xi ! c) (theta ! r)"
  using assms by (simp add: w_row length_xi)

lemma w_grid_table:
  "w_grid = map (\<lambda>r. map (\<lambda>c. Complex (xi ! c) (theta ! r)) [0..<25]) [0..<25]"
proof (rule nth_equalityI)
  show "length w_grid =
        length (map (\<lambda>r. map (\<lambda>c. Complex (xi ! c) (theta ! r)) [0..<25]) [0..<25])"
    by (simp add: length_w)
next
  fix r
  assume "r < length w_grid"
  then have r: "r < 25"
    by (simp add: length_w)
  have "w_grid ! r = map (\<lambda>x. Complex x (theta ! r)) xi"
    by (rule w_row [OF r])
  also have "\<dots> = map (\<lambda>c. Complex (xi ! c) (theta ! r)) [0..<25]"
    by (rule nth_equalityI) (simp_all add: length_xi)
  finally show "w_grid ! r =
      map (\<lambda>r. map (\<lambda>c. Complex (xi ! c) (theta ! r)) [0..<25]) [0..<25] ! r"
    using r by simp
qed

text \<open>
  Claim C5. The \<open>xi\<close> sequence has exactly 25 samples, evenly spaced over \<open>[-1, 1]\<close>
  (sample \<open>i\<close> is \<open>-1 + i * (2 / 24)\<close>), the first is \<open>-1\<close> and the last is \<open>1\<close>; the
  \<open>theta\<close> sequence has exactly 25 samples, evenly spaced over \<open>[0, \<pi>/2]\<close> (sample \<open>i\<close>
  is \<open>i * ((\<pi>/2) / 24)\<close>), the first is \<open>0\<close> and the last is \<open>\<pi>/2\<close>; and the grid
  \<^verbatim>\<open>w = Xi + 1j * Theta\<close> has 25 rows of 25 entries, the entry in row \<open>r\<close> and column
  \<open>c\<close> being \<open>xi ! c + \<i> * theta ! r\<close>: the row index varies \<open>theta\<close>, the column index
  varies \<open>xi\<close>.
\<close>

theorem parameter_grid:
  "length xi = 25 \<and>
   xi = map (\<lambda>i. - 1 + real i * (2 / 24)) [0..<25] \<and>
   xi ! 0 = - 1 \<and> last xi = 1 \<and>
   length theta = 25 \<and>
   theta = map (\<lambda>i. real i * ((pi / 2) / 24)) [0..<25] \<and>
   theta ! 0 = 0 \<and> last theta = pi / 2 \<and>
   w_grid = map (\<lambda>r. map (\<lambda>c. Complex (xi ! c) (theta ! r)) [0..<25]) [0..<25]"
proof -
  have xi_map: "xi = map (\<lambda>i. - 1 + real i * (2 / 24)) [0..<25]"
    by (simp add: xi_def xi_steps_def linspace_eq_map)
  have theta_map: "theta = map (\<lambda>i. real i * ((pi / 2) / 24)) [0..<25]"
    by (simp add: theta_def theta_steps_def linspace_eq_map)
  have xi_last: "last xi = 1"
    using xi_nth [of 24] by (simp add: last_conv_nth length_xi flip: length_0_conv)
  have theta_last: "last theta = pi / 2"
    using theta_nth [of 24] by (simp add: last_conv_nth length_theta flip: length_0_conv)
  show ?thesis
    using xi_map theta_map xi_last theta_last w_grid_table xi_nth [of 0] theta_nth [of 0]
    by (simp only: length_xi length_theta) simp
qed

section \<open>Properties of the sheets\<close>

lemma fold_inner:
  "fold (\<lambda>k2. sheet_body al k1 k2) ks s =
     s\<lparr>all_x := all_x s @ map (\<lambda>k2. X_grid k1) ks,
       all_y := all_y s @ map (\<lambda>k2. Y_grid k2) ks,
       all_z := all_z s @ map (\<lambda>k2. Z_grid al k1 k2) ks,
       plotted := plotted s
         @ concat (map (\<lambda>k2. wireframe (X_grid k1) (Y_grid k2) (Z_grid al k1 k2)) ks)\<rparr>"
  by (induction ks arbitrary: s) (simp_all add: sheet_body_def Let_def)

lemma fold_outer:
  "fold (\<lambda>k1. fold (\<lambda>k2. sheet_body al k1 k2) ks) js s =
     s\<lparr>all_x := all_x s @ concat (map (\<lambda>k1. map (\<lambda>k2. X_grid k1) ks) js),
       all_y := all_y s @ concat (map (\<lambda>k1. map (\<lambda>k2. Y_grid k2) ks) js),
       all_z := all_z s @ concat (map (\<lambda>k1. map (\<lambda>k2. Z_grid al k1 k2) ks) js),
       plotted := plotted s
         @ concat (map (\<lambda>k1. concat (map (\<lambda>k2.
             wireframe (X_grid k1) (Y_grid k2) (Z_grid al k1 k2)) ks)) js)\<rparr>"
  by (induction js arbitrary: s) (simp_all add: fold_inner)

lemma mesh_arrays_eq:
  "mesh_arrays elev azim alpha_deg =
     \<lparr>all_x = concat (map (\<lambda>k1. map (\<lambda>k2. X_grid k1) [0..<5]) [0..<5]),
      all_y = concat (map (\<lambda>k1. map (\<lambda>k2. Y_grid k2) [0..<5]) [0..<5]),
      all_z = concat (map (\<lambda>k1. map (\<lambda>k2. Z_grid (radians alpha_deg) k1 k2) [0..<5]) [0..<5]),
      plotted = concat (map (\<lambda>k1. concat (map (\<lambda>k2.
          wireframe (X_grid k1) (Y_grid k2) (Z_grid (radians alpha_deg) k1 k2)) [0..<5])) [0..<5])\<rparr>"
  by (simp only: mesh_arrays_def Let_def fold_outer n_val_def) simp

lemma gmap_table:
  "gmap f (map (\<lambda>r. map (g r) cs) rs) = map (\<lambda>r. map (\<lambda>c. f (g r c)) cs) rs"
  by (simp add: gmap_def)

lemma map2_table:
  "map2 f (map g cs) (map h cs) = map (\<lambda>c. f (g c) (h c)) cs"
  by (induction cs) simp_all

lemma gmap2_table:
  "gmap2 f (map (\<lambda>r. map (g r) cs) rs) (map (\<lambda>r. map (h r) cs) rs)
     = map (\<lambda>r. map (\<lambda>c. f (g r c) (h r c)) cs) rs"
  unfolding gmap2_def by (induction rs) (simp_all add: map2_table)

lemma z1_grid_table:
  "z1_grid k = map (\<lambda>r. map (\<lambda>c.
      phase k * cpow (cosh (Complex (xi ! c) (theta ! r))) (2 / 5)) [0..<25]) [0..<25]"
  by (simp only: z1_grid_def w_grid_table gmap_table n_val_def) simp

lemma z2_grid_table:
  "z2_grid k = map (\<lambda>r. map (\<lambda>c.
      phase k * cpow (sinh (Complex (xi ! c) (theta ! r))) (2 / 5)) [0..<25]) [0..<25]"
  by (simp only: z2_grid_def w_grid_table gmap_table n_val_def) simp

lemma X_grid_table:
  "X_grid k = map (\<lambda>r. map (\<lambda>c.
      Re (phase k * cpow (cosh (Complex (xi ! c) (theta ! r))) (2 / 5))) [0..<25]) [0..<25]"
  by (simp only: X_grid_def z1_grid_table gmap_table)

lemma Y_grid_table:
  "Y_grid k = map (\<lambda>r. map (\<lambda>c.
      Re (phase k * cpow (sinh (Complex (xi ! c) (theta ! r))) (2 / 5))) [0..<25]) [0..<25]"
  by (simp only: Y_grid_def z2_grid_table gmap_table)

lemma Z_grid_table:
  "Z_grid al k1 k2 = map (\<lambda>r. map (\<lambda>c.
      cos al * Im (phase k1 * cpow (cosh (Complex (xi ! c) (theta ! r))) (2 / 5)) +
      sin al * Im (phase k2 * cpow (sinh (Complex (xi ! c) (theta ! r))) (2 / 5)))
        [0..<25]) [0..<25]"
  by (simp only: Z_grid_def z1_grid_table z2_grid_table gmap_table gmap2_table)

lemma phase_eq: "phase k = exp (2 * complex_of_real pi * \<i> * of_nat k / 5)"
proof -
  have "Complex 0 2 = 2 * \<i>"
    by (simp add: complex_eq_iff)
  then have "Complex 0 2 * complex_of_real pi * of_nat k / of_nat n_val
      = 2 * complex_of_real pi * \<i> * of_nat k / 5"
    by (simp add: n_val_def)
  then show ?thesis
    by (simp only: phase_def)
qed

lemma cpow_principal:
  "cpow z b = (if z = 0 then 0 else exp (complex_of_real b * Complex (ln (cmod z)) (Arg z)))"
  by (simp add: cpow_def clog_def)

text \<open>
  Claim C1. For every input triple the generator records exactly 25 sheets, in the order
  of an outer loop over \<open>k1 = 0..4\<close> and an inner loop over \<open>k2 = 0..4\<close>; on the
  25 by 25 grid \<open>w = xi + \<i> * theta\<close> (row \<open>r\<close>, column \<open>c\<close>) the sheet \<open>(k1, k2)\<close> has
  \<open>X = Re z1\<close>, \<open>Y = Re z2\<close> and \<open>Z = cos \<alpha> * Im z1 + sin \<alpha> * Im z2\<close>, where
  \<open>z1 = exp (2\<pi>\<i> k1 / 5) * cosh w ^ (2/5)\<close>, \<open>z2 = exp (2\<pi>\<i> k2 / 5) * sinh w ^ (2/5)\<close> and
  \<open>\<alpha>\<close> is \<open>alpha_deg\<close> in radians. The power is the principal one: \<open>exp\<close> of the
  exponent times the logarithm whose imaginary part is the argument in \<open>(-\<pi>, \<pi>]\<close>.
\<close>

theorem sheet_coordinates:
  "(let m = mesh_arrays elev azim alpha_deg;
        alpha = alpha_deg * pi / 180;
        wv = (\<lambda>r c. Complex (xi ! c) (theta ! r));
        z1 = (\<lambda>k1 r c. exp (2 * complex_of_real pi * \<i> * of_nat k1 / 5)
                          * cpow (cosh (wv r c)) (2 / 5));
        z2 = (\<lambda>k2 r c. exp (2 * complex_of_real pi * \<i> * of_nat k2 / 5)
                          * cpow (sinh (wv r c)) (2 / 5));
        sheets = (\<lambda>f. concat (map (\<lambda>k1. map (\<lambda>k2.
                    map (\<lambda>r. map (\<lambda>c. f k1 k2 r c) [0..<25]) [0..<25]) [0..<5]) [0..<5]))
    in all_x m = sheets (\<lambda>k1 k2 r c. Re (z1 k1 r c)) \<and>
       all_y m = sheets (\<lambda>k1 k2 r c. Re (z2 k2 r c)) \<and>
       all_z m = sheets (\<lambda>k1 k2 r c. cos alpha * Im (z1 k1 r c) + sin alpha * Im (z2 k2 r c)) \<and>
       length (all_x m) = 25 \<and> length (all_y m) = 25 \<and> length (all_z m) = 25) \<and>
   (\<forall>z b. cpow z b =
      (if z = 0 then 0 else exp (complex_of_real b * Complex (ln (cmod z)) (Arg z)))) \<and>
   (\<forall>z. - pi < Arg z \<and> Arg z \<le> pi)"
proof -
  have len: "length (concat (map (\<lambda>k1. map (\<lambda>k2. f k1 k2) [0..<5]) [0..<5])) = 25"
    for f :: "nat \<Rightarrow> nat \<Rightarrow> real grid"
    by (simp add: length_concat comp_def sum_list_triv)
  have rad: "radians alpha_deg = alpha_deg * pi / 180"
    by (simp add: radians_def)
  have Y: "Y_grid = (\<lambda>k. map (\<lambda>r. map (\<lambda>c.
      Re (phase k * cpow (sinh (Complex (xi ! c) (theta ! r))) (2 / 5))) [0..<25]) [0..<25])"
    by (rule ext) (rule Y_grid_table)
  have Z: "Z_grid al k1 = (\<lambda>k2. map (\<lambda>r. map (\<lambda>c.
      cos al * Im (phase k1 * cpow (cosh (Complex (xi ! c) (theta ! r))) (2 / 5)) +
      sin al * Im (phase k2 * cpow (sinh (Complex (xi ! c) (theta ! r))) (2 / 5)))
        [0..<25]) [0..<25])" for al k1
    by (rule ext) (rule Z_grid_table)
  show ?thesis
    unfolding Let_def mesh_arrays_eq mesh.simps
    apply (intro conjI allI)
    subgoal by (simp only: X_grid_table phase_eq)
    subgoal by (simp only: Y phase_eq)
    subgoal by (simp only: Z phase_eq rad)
    subgoal by (rule len)
    subgoal by (rule len)
    subgoal by (rule len)
    subgoal by (rule cpow_principal)
    subgoal by (rule Arg_bounded [THEN conjunct1])
    subgoal by (rule Arg_bounded [THEN conjunct2])
    done
qed

text \<open>
  Claim C3. With \<open>alpha_deg = 0\<close>, for every elevation and azimuth, the \<open>Z\<close> array of
  every sheet \<open>(k1, k2)\<close> is the imaginary part of that sheet's \<open>z1\<close>, at every grid point.
\<close>

theorem z_at_alpha_zero:
  "all_z (mesh_arrays elev azim 0)
     = concat (map (\<lambda>k1. map (\<lambda>k2. gmap Im (z1_grid k1)) [0..<5]) [0..<5])"
proof -
  have "Z_grid (radians 0) k1 k2 = gmap Im (z1_grid k1)" for k1 k2
    by (simp only: Z_grid_table z1_grid_table gmap_table) (simp add: radians_def)
  then show ?thesis
    by (simp only: mesh_arrays_eq mesh.simps)
qed

text \<open>
  The same computation at \<open>alpha_deg = 90\<close>, in exact arithmetic: the angle is \<open>\<pi>/2\<close>,
  its cosine is \<open>0\<close> and its sine is \<open>1\<close>, so \<open>Z\<close> is the imaginary part of \<open>z2\<close>. This is
  a fact of the real numbers only. The script's \<^verbatim>\<open>np.radians(90)\<close> is the float64
  nearest to \<open>\<pi>/2\<close>, and \<^verbatim>\<open>np.cos\<close> of it is about \<open>6.1e-17\<close>, not \<open>0\<close>: there the
  term \<open>cos \<alpha> * Im z1\<close> is small, not absent.
\<close>

lemma z_at_alpha_ninety_exact_arithmetic:
  "all_z (mesh_arrays elev azim 90)
     = concat (map (\<lambda>k1. map (\<lambda>k2. gmap Im (z2_grid k2)) [0..<5]) [0..<5])"
proof -
  have "Z_grid (radians 90) k1 = (\<lambda>k2. gmap Im (z2_grid k2))" for k1
    by (rule ext) (simp only: Z_grid_table z2_grid_table gmap_table, simp add: radians_def)
  then show ?thesis
    by (simp only: mesh_arrays_eq mesh.simps)
qed

text \<open>
  Claim C10. Every sheet is a phase rotation of the base sheet: the grid \<open>z1\<close> of a sheet
  \<open>(k1, k2)\<close> is \<open>exp (2\<pi>\<i> k1 / 5)\<close> times the grid \<open>z1\<close> of sheet \<open>(0, 0)\<close>, its grid
  \<open>z2\<close> is \<open>exp (2\<pi>\<i> k2 / 5)\<close> times the grid \<open>z2\<close> of sheet \<open>(0, 0)\<close>, and the base
  grids are \<open>cosh w ^ (2/5)\<close> and \<open>sinh w ^ (2/5)\<close>, the same in every iteration.
\<close>

theorem sheets_are_phase_rotations:
  "z1_grid k1 = gmap (\<lambda>v. exp (2 * complex_of_real pi * \<i> * of_nat k1 / 5) * v) (z1_grid 0) \<and>
   z2_grid k2 = gmap (\<lambda>v. exp (2 * complex_of_real pi * \<i> * of_nat k2 / 5) * v) (z2_grid 0) \<and>
   z1_grid 0 = gmap (\<lambda>v. cpow (cosh v) (2 / 5)) w_grid \<and>
   z2_grid 0 = gmap (\<lambda>v. cpow (sinh v) (2 / 5)) w_grid"
proof -
  have p0: "phase 0 = 1"
    by (simp add: phase_def)
  show ?thesis
    by (simp add: z1_grid_def z2_grid_def gmap_def p0 phase_eq n_val_def)
qed

section \<open>Properties of the bounding cube\<close>

lemma amax_nonempty: "v \<noteq> [] \<Longrightarrow> amax v = Inr (Max (set v))"
proof (cases v)
  case Nil
  assume "v \<noteq> []"
  with Nil show ?thesis by simp
next
  case (Cons a l)
  then show ?thesis
    using Max.set_eq_fold [of a l] by (simp add: amax_def)
qed

lemma amin_nonempty: "v \<noteq> [] \<Longrightarrow> amin v = Inr (Min (set v))"
proof (cases v)
  case Nil
  assume "v \<noteq> []"
  with Nil show ?thesis by simp
next
  case (Cons a l)
  then show ?thesis
    using Min.set_eq_fold [of a l] by (simp add: amin_def)
qed

lemma bounding_cube_nonempty:
  assumes "vx \<noteq> []" and "vy \<noteq> []" and "vz \<noteq> []"
  shows "bounding_cube vx vy vz =
    Inr \<lparr>xlim = ((Max (set vx) + Min (set vx)) / 2
                   - max (max (Max (set vx) - Min (set vx)) (Max (set vy) - Min (set vy)))
                       (Max (set vz) - Min (set vz)) / 2,
                 (Max (set vx) + Min (set vx)) / 2
                   + max (max (Max (set vx) - Min (set vx)) (Max (set vy) - Min (set vy)))
                       (Max (set vz) - Min (set vz)) / 2),
         ylim = ((Max (set vy) + Min (set vy)) / 2
                   - max (max (Max (set vx) - Min (set vx)) (Max (set vy) - Min (set vy)))
                       (Max (set vz) - Min (set vz)) / 2,
                 (Max (set vy) + Min (set vy)) / 2
                   + max (max (Max (set vx) - Min (set vx)) (Max (set vy) - Min (set vy)))
                       (Max (set vz) - Min (set vz)) / 2),
         zlim = ((Max (set vz) + Min (set vz)) / 2
                   - max (max (Max (set vx) - Min (set vx)) (Max (set vy) - Min (set vy)))
                       (Max (set vz) - Min (set vz)) / 2,
                 (Max (set vz) + Min (set vz)) / 2
                   + max (max (Max (set vx) - Min (set vx)) (Max (set vy) - Min (set vy)))
                       (Max (set vz) - Min (set vz)) / 2)\<rparr>"
  using assms
  by (simp add: bounding_cube_def bind_err_def amax_nonempty amin_nonempty Let_def max.commute
      max.left_commute)

lemma Y_grid_fun:
  "Y_grid = (\<lambda>k. map (\<lambda>r. map (\<lambda>c.
      Re (phase k * cpow (sinh (Complex (xi ! c) (theta ! r))) (2 / 5))) [0..<25]) [0..<25])"
  by (rule ext) (rule Y_grid_table)

lemma Z_grid_fun:
  "Z_grid al k1 = (\<lambda>k2. map (\<lambda>r. map (\<lambda>c.
      cos al * Im (phase k1 * cpow (cosh (Complex (xi ! c) (theta ! r))) (2 / 5)) +
      sin al * Im (phase k2 * cpow (sinh (Complex (xi ! c) (theta ! r))) (2 / 5)))
        [0..<25]) [0..<25])"
  by (rule ext) (rule Z_grid_table)

lemma table_nonempty:
  "concat (map flatten (concat (map (\<lambda>k1. map (\<lambda>k2.
      map (\<lambda>r. map (\<lambda>c. f k1 k2 r c) [0..<25]) [0..<25]) [0..<5]) [0..<5]))) \<noteq> []"
  by (auto simp: flatten_def intro: exI [of _ 0])

lemma pooled_x_nonempty: "concat (map flatten (all_x (mesh_arrays elev azim alpha_deg))) \<noteq> []"
  unfolding mesh_arrays_eq mesh.simps X_grid_table by (rule table_nonempty)

lemma pooled_y_nonempty: "concat (map flatten (all_y (mesh_arrays elev azim alpha_deg))) \<noteq> []"
  unfolding mesh_arrays_eq mesh.simps Y_grid_fun by (rule table_nonempty)

lemma pooled_z_nonempty: "concat (map flatten (all_z (mesh_arrays elev azim alpha_deg))) \<noteq> []"
  unfolding mesh_arrays_eq mesh.simps Z_grid_fun by (rule table_nonempty)

lemma cube_widths:
  assumes "vx \<noteq> []" and "vy \<noteq> []" and "vz \<noteq> []"
  shows "\<exists>bx. bounding_cube vx vy vz = Inr bx \<and>
    snd (xlim bx) - fst (xlim bx)
      = Max {Max (set vx) - Min (set vx), Max (set vy) - Min (set vy), Max (set vz) - Min (set vz)} \<and>
    snd (ylim bx) - fst (ylim bx)
      = Max {Max (set vx) - Min (set vx), Max (set vy) - Min (set vy), Max (set vz) - Min (set vz)} \<and>
    snd (zlim bx) - fst (zlim bx)
      = Max {Max (set vx) - Min (set vx), Max (set vy) - Min (set vy), Max (set vz) - Min (set vz)} \<and>
    (fst (xlim bx) + snd (xlim bx)) / 2 = (Max (set vx) + Min (set vx)) / 2 \<and>
    (fst (ylim bx) + snd (ylim bx)) / 2 = (Max (set vy) + Min (set vy)) / 2 \<and>
    (fst (zlim bx) + snd (zlim bx)) / 2 = (Max (set vz) + Min (set vz)) / 2"
  by (simp add: bounding_cube_nonempty [OF assms] max.commute max.left_commute)

lemma draw_bounding_cube:
  "bounding_cube (concat (map flatten (all_x (mesh_arrays elev azim alpha_deg))))
       (concat (map flatten (all_y (mesh_arrays elev azim alpha_deg))))
       (concat (map flatten (all_z (mesh_arrays elev azim alpha_deg)))) = Inr bx \<Longrightarrow>
   draw elev azim alpha_deg =
     Inr \<lparr>texts = [Equation_text, Param_text alpha_deg azim elev],
          axis_on = False,
          fig_lines = plotted (mesh_arrays elev azim alpha_deg),
          fig_limits = bx,
          view_elev = elev,
          view_azim = azim\<rparr>"
  by (simp add: draw_def Let_def bind_err_def)

lemma draw_succeeds:
  "\<exists>fig. draw elev azim alpha_deg = Inr fig \<and>
     fig_lines fig = plotted (mesh_arrays elev azim alpha_deg)"
proof -
  from cube_widths [OF pooled_x_nonempty pooled_y_nonempty pooled_z_nonempty,
      of elev azim alpha_deg elev azim alpha_deg elev azim alpha_deg]
  obtain bx where
    "bounding_cube (concat (map flatten (all_x (mesh_arrays elev azim alpha_deg))))
       (concat (map flatten (all_y (mesh_arrays elev azim alpha_deg))))
       (concat (map flatten (all_z (mesh_arrays elev azim alpha_deg)))) = Inr bx"
    by blast
  from draw_bounding_cube [OF this] show ?thesis
    by simp
qed


section \<open>Properties of the generation routine\<close>













lemma upt5: "[0..<5] = [0, 1, 2, 3, 4]"
  by code_simp

lemma cpow_one: "cpow 1 b = 1"
proof -
  have "Arg 1 = 0"
    by (rule cis_Arg_unique) simp_all
  then have "clog 1 = 0"
    by (simp add: clog_def complex_eq_iff)
  then show ?thesis
    by (simp add: cpow_def)
qed

lemma phase_one_imaginary: "Im (phase 1) = sin (2 * pi / 5)"
proof -
  have "phase 1 = exp (\<i> * complex_of_real (2 * pi / 5))"
    by (simp add: phase_eq mult_ac)
  then show ?thesis
    by (simp only: cis_conv_exp [symmetric] cis.sel)
qed

lemma z1_at_origin:
  "phase 1 * cpow (cosh (Complex (xi ! 12) (theta ! 0))) (2 / 5) = phase 1"
proof -
  have "Complex (xi ! 12) (theta ! 0) = 0"
    by (simp add: xi_nth theta_nth complex_eq_iff)
  then show ?thesis
    by (simp add: cpow_one)
qed

lemma z_depends_on_alpha:
  "all_z (mesh_arrays elev azim 0) \<noteq> all_z (mesh_arrays elev azim 180)"
proof
  assume eq: "all_z (mesh_arrays elev azim 0) = all_z (mesh_arrays elev azim 180)"
  have "all_z (mesh_arrays elev azim a) ! 5 = Z_grid (radians a) 1 0" for a
    by (simp add: mesh_arrays_eq upt5)
  with eq have "Z_grid (radians 0) 1 0 = Z_grid (radians 180) 1 0"
    by metis
  then have "Z_grid (radians 0) 1 0 ! 0 ! 12 = Z_grid (radians 180) 1 0 ! 0 ! 12"
    by simp
  moreover have "Z_grid al 1 0 ! 0 ! 12 = cos al * Im (phase 1) +
      sin al * Im (phase 0 * cpow (sinh (Complex (xi ! 12) (theta ! 0))) (2 / 5))" for al
    unfolding Z_grid_table
    by (simp del: times_complex.sel One_nat_def add: z1_at_origin)
  ultimately have "Im (phase 1) = - Im (phase 1)"
    by (simp add: radians_def del: times_complex.sel One_nat_def)
  then have "Im (phase 1) = 0"
    by linarith
  then have "sin (2 * pi / 5) = 0"
    by (simp only: phase_one_imaginary)
  moreover have "0 < sin (2 * pi / 5)"
    by (rule sin_gt_zero) (use pi_gt_zero in simp_all)
  ultimately show False
    by simp
qed

text \<open>
  Claim C9. The arrays \<open>X\<close> and \<open>Y\<close> of every sheet do not depend on \<open>alpha_deg\<close>, and
  no array of the mesh, nor any line drawn from it, depends on the elevation or the
  azimuth. The arrays \<open>Z\<close> do depend on \<open>alpha_deg\<close>: they differ between 0 and 180
  degrees.
\<close>

theorem mesh_independent_of_camera:
  "all_x (mesh_arrays elev azim alpha1) = all_x (mesh_arrays elev azim alpha2) \<and>
   all_y (mesh_arrays elev azim alpha1) = all_y (mesh_arrays elev azim alpha2) \<and>
   mesh_arrays elev1 azim1 alpha_deg = mesh_arrays elev2 azim2 alpha_deg \<and>
   map_sum id fig_lines (draw elev1 azim1 alpha_deg)
     = map_sum id fig_lines (draw elev2 azim2 alpha_deg) \<and>
   all_z (mesh_arrays elev azim 0) \<noteq> all_z (mesh_arrays elev azim 180)"
proof -
  have m: "mesh_arrays elev1 azim1 alpha_deg = mesh_arrays elev2 azim2 alpha_deg"
    by (simp only: mesh_arrays_eq)
  from draw_succeeds [of elev1 azim1 alpha_deg]
  obtain f1 where f1: "draw elev1 azim1 alpha_deg = Inr f1"
    "fig_lines f1 = plotted (mesh_arrays elev1 azim1 alpha_deg)" by blast
  from draw_succeeds [of elev2 azim2 alpha_deg]
  obtain f2 where f2: "draw elev2 azim2 alpha_deg = Inr f2"
    "fig_lines f2 = plotted (mesh_arrays elev2 azim2 alpha_deg)" by blast
  have "map_sum id fig_lines (draw elev1 azim1 alpha_deg)
     = map_sum id fig_lines (draw elev2 azim2 alpha_deg)"
    by (simp add: f1 f2 m)
  moreover have "all_x (mesh_arrays elev azim alpha1) = all_x (mesh_arrays elev azim alpha2)"
    by (simp only: mesh_arrays_eq mesh.simps)
  moreover have "all_y (mesh_arrays elev azim alpha1) = all_y (mesh_arrays elev azim alpha2)"
    by (simp only: mesh_arrays_eq mesh.simps)
  ultimately show ?thesis
    using m z_depends_on_alpha [of elev azim] by blast
qed

section \<open>Properties of batch mode\<close>
















end
